theory Spec2Isabelle
  imports Complex_Main "HOL-Library.AList"
begin

section \<open>Python string primitives used by \<^verbatim>\<open>recentrifuge/generic.py\<close>\<close>

text \<open>
  Strings are lists of characters. The text is taken to be ASCII: Python's \<^verbatim>\<open>str.strip\<close>,
  \<^verbatim>\<open>str.split\<close> and \<^verbatim>\<open>int\<close> also know the whitespace and the digits beyond ASCII,
  which an 8-bit \<^typ>\<open>char\<close> does not spell.
\<close>

definition TAB :: char where
  "TAB = CHR 0x09"

definition NL :: char where
  "NL = CHR 0x0A"

text \<open>The ASCII characters for which \<^verbatim>\<open>str.isspace\<close> holds.\<close>

definition is_space :: "char \<Rightarrow> bool" where
  "is_space c \<longleftrightarrow>
     c \<in> set [CHR 0x20, CHR 0x09, CHR 0x0A, CHR 0x0B, CHR 0x0C, CHR 0x0D,
               CHR 0x1C, CHR 0x1D, CHR 0x1E, CHR 0x1F]"

text \<open>\<^verbatim>\<open>s.strip()\<close>: whitespace removed at both ends.\<close>

definition strip :: "string \<Rightarrow> string" where
  "strip s = rev (dropWhile is_space (rev (dropWhile is_space s)))"

text \<open>\<^verbatim>\<open>s.split(sep)\<close> for a separator of one character: never an empty list.\<close>

fun split_on :: "char \<Rightarrow> string \<Rightarrow> string list" where
  "split_on sep [] = [[]]"
| "split_on sep (c # cs) =
     (if c = sep then [] # split_on sep cs
      else (case split_on sep cs of
              [] \<Rightarrow> [[c]]
            | w # ws \<Rightarrow> (c # w) # ws))"

text \<open>\<^verbatim>\<open>s.split()\<close>: the maximal runs of characters that are not whitespace.\<close>

fun split_ws :: "string \<Rightarrow> string list" where
  "split_ws [] = []"
| "split_ws (c # cs) =
     (if is_space c then split_ws cs
      else (case cs of
              [] \<Rightarrow> [[c]]
            | d # _ \<Rightarrow>
                if is_space d then [c] # split_ws cs
                else (case split_ws cs of
                        [] \<Rightarrow> [[c]]
                      | w # ws \<Rightarrow> (c # w) # ws)))"

text \<open>\<^verbatim>\<open>s.upper()\<close> on ASCII letters.\<close>

definition to_upper :: "char \<Rightarrow> char" where
  "to_upper c =
     (case map_of (zip ''abcdefghijklmnopqrstuvwxyz'' ''ABCDEFGHIJKLMNOPQRSTUVWXYZ'') c of
        None \<Rightarrow> c
      | Some u \<Rightarrow> u)"

definition upper :: "string \<Rightarrow> string" where
  "upper s = map to_upper s"

subsection \<open>\<^verbatim>\<open>int(s)\<close>\<close>

definition is_digit :: "char \<Rightarrow> bool" where
  "is_digit c \<longleftrightarrow> c \<in> set ''0123456789''"

definition digit_val :: "char \<Rightarrow> int" where
  "digit_val c = of_char c - 48"

text \<open>
  Digits with single underscores between them, as \<^verbatim>\<open>int\<close> reads them in base 10;
  \<open>acc\<close> is the value of the digits read so far. \<open>None\<close> is \<^verbatim>\<open>ValueError\<close>.
\<close>

fun digits_val :: "int \<Rightarrow> string \<Rightarrow> int option" where
  "digits_val acc [] = Some acc"
| "digits_val acc (c # cs) =
     (if is_digit c then digits_val (acc * 10 + digit_val c) cs
      else if c = CHR ''_'' then
        (case cs of
           [] \<Rightarrow> None
         | d # ds \<Rightarrow>
             if is_digit d then digits_val (acc * 10 + digit_val d) ds else None)
      else None)"

definition unsigned_val :: "string \<Rightarrow> int option" where
  "unsigned_val s =
     (case s of
        [] \<Rightarrow> None
      | d # _ \<Rightarrow> if is_digit d then digits_val 0 s else None)"

text \<open>
  \<^verbatim>\<open>int(s)\<close>: surrounding whitespace is dropped, one sign is allowed, the rest is
  digits. \<open>None\<close> is \<^verbatim>\<open>ValueError\<close>. The bound that recent versions of Python put
  on the number of digits is not modelled.
\<close>

definition py_int :: "string \<Rightarrow> int option" where
  "py_int s =
     (case strip s of
        [] \<Rightarrow> None
      | c # cs \<Rightarrow>
          if c = CHR ''-'' then map_option uminus (unsigned_val cs)
          else if c = CHR ''+'' then unsigned_val cs
          else unsigned_val (c # cs))"

section \<open>Exceptions and console output\<close>

text \<open>The exceptions that leave the two operations of the module.\<close>

datatype error =
    IndexError
  | KeyError
  | ValueError
  | ZeroDivisionError
  | StatisticsError
  | Unsupported_file_format
  | Cannot_read_file
  | Cannot_read_any_sequence
  | No_sequence_passed_the_filter
  | Unsupported_scoring

text \<open>What the module prints, in order.\<close>

datatype message =
    Format_malformed string
  | Format_not_supported "string list"
  | Error_parsing_line string
  | Error_parsing_elements string
  | Seems_truncated
  | Unsupported_scoring_message

text \<open>A run prints some messages, then raises or returns.\<close>

type_synonym 'a result = "message list \<times> (error + 'a)"

text \<open>Sequencing: the second step runs only when the first one has not raised.\<close>

definition then_do :: "'a result \<Rightarrow> ('a \<Rightarrow> 'b result) \<Rightarrow> 'b result" where
  "then_do m f =
     (case m of
        (out, Inl e) \<Rightarrow> (out, Inl e)
      | (out, Inr x) \<Rightarrow> (case f x of (out', r) \<Rightarrow> (out @ out', r)))"

section \<open>\<^verbatim>\<open>GenericFormat\<close>\<close>

datatype GenericType = CSV | TSV

text \<open>\<^verbatim>\<open>GenericType[name]\<close>: \<open>None\<close> is \<^verbatim>\<open>KeyError\<close>.\<close>

definition GenericType_item :: "string \<Rightarrow> GenericType option" where
  "GenericType_item name =
     (if name = ''CSV'' then Some CSV else if name = ''TSV'' then Some TSV else None)"

text \<open>
  The attributes of a \<^verbatim>\<open>GenericFormat\<close> object. An attribute the constructor never
  assigned is absent from the Python object: \<open>self_typ = None\<close> is the object without its
  \<^verbatim>\<open>typ\<close> attribute.
\<close>

record GenericFormat =
  self_typ :: "GenericType option"
  self_tid :: int
  self_len :: int
  self_sco :: int
  self_unc :: string

text \<open>
  The dictionary comprehension of the constructor, block by block; a block without a colon
  raises \<^verbatim>\<open>IndexError\<close>, a key met again takes the later value.
\<close>

fun fmt_pairs :: "(string \<times> string) list \<Rightarrow> string list \<Rightarrow> error + (string \<times> string) list" where
  "fmt_pairs fmt [] = Inr fmt"
| "fmt_pairs fmt (pair # blocks) =
     (case split_on (CHR '':'') pair of
        k # v # _ \<Rightarrow> fmt_pairs (AList.update (strip k) (strip v) fmt) blocks
      | _ \<Rightarrow> Inl IndexError)"

text \<open>
  One of the three \<^verbatim>\<open>try: int(fmt[key])\<close> blocks: \<^verbatim>\<open>KeyError\<close> and
  \<^verbatim>\<open>ValueError\<close> print their message and are raised again.
\<close>

definition column_field ::
  "(string \<times> string) list \<Rightarrow> string \<Rightarrow> string \<Rightarrow> string \<Rightarrow> int result" where
  "column_field fmt key mandatory not_integer =
     (case map_of fmt key of
        None \<Rightarrow> ([Format_malformed mandatory], Inl KeyError)
      | Some v \<Rightarrow>
          (case py_int v of
             None \<Rightarrow> ([Format_malformed not_integer], Inl ValueError)
           | Some n \<Rightarrow> ([], Inr n)))"

text \<open>
  \<^verbatim>\<open>GenericFormat.__init__\<close>. The handler of the unknown \<^verbatim>\<open>TYP\<close> prints its
  message and, unlike every other handler, does not raise: the constructor goes on and
  \<^verbatim>\<open>self.typ\<close> stays unassigned.
\<close>

definition GenericFormat_init :: "string \<Rightarrow> GenericFormat result" where
  "GenericFormat_init format =
     (case fmt_pairs [] (map strip (split_on (CHR '','') format)) of
        Inl e \<Rightarrow> ([], Inl e)
      | Inr fmt \<Rightarrow>
          (case map_of fmt ''TYP'' of
             None \<Rightarrow> ([Format_malformed ''TYPe field is mandatory.''], Inl KeyError)
           | Some t \<Rightarrow>
               then_do
                 (case GenericType_item (upper t) of
                    None \<Rightarrow>
                      ([Format_malformed ''Unknown file TYPe, valid options are CSV or TSV''],
                       Inr None)
                  | Some ty \<Rightarrow> ([], Inr (Some ty)))
                 (\<lambda>typ_attr.
               then_do
                 (column_field fmt ''TID'' ''TaxID field is mandatory.''
                    ''TaxID field is an integer number of column.'')
                 (\<lambda>tid_attr.
               then_do
                 (column_field fmt ''LEN'' ''LENgth field is mandatory.''
                    ''LENgth field is an integer number of column.'')
                 (\<lambda>len_attr.
               then_do
                 (column_field fmt ''SCO'' ''SCOre field is mandatory.''
                    ''SCOre field is an integer number of column.'')
                 (\<lambda>sco_attr.
                 (case map_of fmt ''UNC'' of
                    None \<Rightarrow> ([Format_malformed ''UNClassified field is mandatory.''], Inl KeyError)
                  | Some u \<Rightarrow>
                      ([], Inr \<lparr>self_typ = typ_attr, self_tid = tid_attr, self_len = len_attr,
                                self_sco = sco_attr, self_unc = u\<rparr>))))))))"

section \<open>\<^verbatim>\<open>read_generic_output\<close>: the names it reads from the module\<close>

text \<open>
  Modelled from the spec: the enumeration \<^verbatim>\<open>Scoring\<close> of \<^verbatim>\<open>recentrifuge.config\<close>,
  which is not part of the module. The spec names five scoring policies; \<open>OTHER\<close> stands
  for any further member, which the function rejects as unsupported.
\<close>

datatype Scoring = SHEL | KRAKEN | LENGTH | LOGLENGTH | NORMA | OTHER

text \<open>
  The function reads \<^verbatim>\<open>UNCLASSIFIED\<close>, \<^verbatim>\<open>K_MER_SIZE\<close> and \<^verbatim>\<open>scoring\<close> as
  global names that the module itself does not bind; they are parameters here.
\<close>

record globals =
  UNCLASSIFIED :: string
  K_MER_SIZE :: int
  scoring :: Scoring

section \<open>The record parser\<close>

text \<open>
  A \<^verbatim>\<open>collections.Counter\<close> as an association list in insertion order:
  a missing key reads as 0.
\<close>

definition counter_get :: "(string \<times> int) list \<Rightarrow> string \<Rightarrow> int" where
  "counter_get mappings k = (case map_of mappings k of None \<Rightarrow> 0 | Some v \<Rightarrow> v)"

text \<open>
  The loop \<^verbatim>\<open>for pair in maps: mappings[couple[0]] += int(couple[1])\<close>. A pair without
  a colon raises \<^verbatim>\<open>IndexError\<close>, a count that \<^verbatim>\<open>int\<close> refuses raises
  \<^verbatim>\<open>ValueError\<close>; the first pair in error decides.
\<close>

fun count_pairs :: "(string \<times> int) list \<Rightarrow> string list \<Rightarrow> error + (string \<times> int) list" where
  "count_pairs mappings [] = Inr mappings"
| "count_pairs mappings (pair # maps) =
     (case split_on (CHR '':'') pair of
        c0 # c1 # _ \<Rightarrow>
          (case py_int c1 of
             None \<Rightarrow> Inl ValueError
           | Some n \<Rightarrow>
               count_pairs (AList.update c0 (counter_get mappings c0 + n) mappings) maps)
      | _ \<Rightarrow> Inl IndexError)"

text \<open>
  What one pass through the two \<^verbatim>\<open>try\<close> blocks of the loop body comes to, before
  the threshold and the accumulation:
  \<^item> \<open>Bad_line\<close>: the line does not unpack into five fields (first handler);
  \<^item> \<open>Bad_length\<close>: \<^verbatim>\<open>int\<close> refuses a segment of the length, before the read is
    counted (second handler);
  \<^item> \<open>Unclassified\<close>: the read is counted with its length, and nothing else;
  \<^item> \<open>Bad_elements\<close>: the read is counted, then a \<^verbatim>\<open>ValueError\<close> reaches the second
    handler;
  \<^item> \<open>Raised\<close>: the read is counted, then an exception that no handler of the function
    catches leaves the loop;
  \<^item> \<open>Classified\<close>: taxon id, length, shel and score of the read.
  Python's floats are taken as exact real numbers: neither the rounding to binary64 nor
  the overflow of a quotient of very large integers is modelled.
\<close>

datatype parsed =
    Bad_line string
  | Bad_length string
  | Unclassified int
  | Bad_elements int string
  | Raised int error
  | Classified string int int real

definition parse_record :: "globals \<Rightarrow> string \<Rightarrow> parsed" where
  "parse_record g raw_line =
     (let output_line = strip raw_line
      in case split_on TAB output_line of
           [clas_, label_, tid_, length_, maps_] \<Rightarrow>
             (case those (map py_int (split_on (CHR ''|'') length_)) of
                None \<Rightarrow> Bad_length output_line
              | Some segments \<Rightarrow>
                  let len = sum_list segments
                  in if clas_ = UNCLASSIFIED g then Unclassified len
                     else
                       (case count_pairs [] (remove1 ''|:|'' (split_ws maps_)) of
                          Inl ValueError \<Rightarrow> Bad_elements len output_line
                        | Inl e \<Rightarrow> Raised len e
                        | Inr mappings \<Rightarrow>
                            let shel = counter_get mappings tid_ + K_MER_SIZE g;
                                total = sum_list (map snd mappings)
                            in if total = 0 then Raised len ZeroDivisionError
                               else Classified tid_ len shel
                                      (real_of_int (counter_get mappings tid_)
                                         / real_of_int total * 100)))
         | _ \<Rightarrow> Bad_line output_line)"

section \<open>The per-taxon accumulation and the scan\<close>

text \<open>
  The local variables of \<^verbatim>\<open>read_generic_output\<close> that live across the lines of the
  file. A Python \<^verbatim>\<open>dict\<close> is an association list in insertion order.
\<close>

record scan_state =
  all_scores :: "(string \<times> int list) list"
  all_kmerel :: "(string \<times> real list) list"
  all_length :: "(string \<times> int list) list"
  num_read :: int
  nt_read :: int
  num_uncl :: int
  error_read :: int

definition initial_state :: scan_state where
  "initial_state =
     \<lparr>all_scores = [], all_kmerel = [], all_length = [],
      num_read = 0, nt_read = 0, num_uncl = 0, error_read = - 1\<rparr>"

text \<open>
  \<^verbatim>\<open>try: d[k].append(v)\<close> \<^verbatim>\<open>except KeyError: d[k] = [v, ]\<close>
\<close>

definition dict_append :: "string \<Rightarrow> 'v \<Rightarrow> (string \<times> 'v list) list \<Rightarrow> (string \<times> 'v list) list" where
  "dict_append k v d =
     (case map_of d k of
        Some vs \<Rightarrow> AList.update k (vs @ [v]) d
      | None \<Rightarrow> AList.update k [v] d)"

text \<open>\<^verbatim>\<open>num_read += 1; nt_read += length\<close>\<close>

definition count_read :: "int \<Rightarrow> scan_state \<Rightarrow> scan_state" where
  "count_read len s = s\<lparr>num_read := num_read s + 1, nt_read := nt_read s + len\<rparr>"

text \<open>Either handler of \<^verbatim>\<open>ValueError\<close>: \<^verbatim>\<open>error_read = num_read + 1\<close>\<close>

definition mark_error :: "scan_state \<Rightarrow> scan_state" where
  "mark_error s = s\<lparr>error_read := num_read s + 1\<rparr>"

text \<open>The test that sends a derived record to \<^verbatim>\<open>continue\<close> for its low score.\<close>

definition low_score :: "globals \<Rightarrow> real option \<Rightarrow> int \<Rightarrow> real \<Rightarrow> bool" where
  "low_score g minscore shel score =
     (case minscore of
        None \<Rightarrow> False
      | Some m \<Rightarrow> if scoring g = KRAKEN then score < m else real_of_int shel < m)"

text \<open>The three appends of a retained record.\<close>

definition retain :: "string \<Rightarrow> int \<Rightarrow> int \<Rightarrow> real \<Rightarrow> scan_state \<Rightarrow> scan_state" where
  "retain t len shel score s =
     s\<lparr>all_scores := dict_append t shel (all_scores s),
       all_kmerel := dict_append t score (all_kmerel s),
       all_length := dict_append t len (all_length s)\<rparr>"

text \<open>One iteration of \<^verbatim>\<open>for raw_line in file\<close>.\<close>

definition loop_body :: "globals \<Rightarrow> real option \<Rightarrow> scan_state \<Rightarrow> string \<Rightarrow> scan_state result" where
  "loop_body g minscore s raw_line =
     (case parse_record g raw_line of
        Bad_line output_line \<Rightarrow> ([Error_parsing_line output_line], Inr (mark_error s))
      | Bad_length output_line \<Rightarrow> ([Error_parsing_elements output_line], Inr (mark_error s))
      | Unclassified len \<Rightarrow>
          ([], Inr ((count_read len s)\<lparr>num_uncl := num_uncl s + 1\<rparr>))
      | Bad_elements len output_line \<Rightarrow>
          ([Error_parsing_elements output_line], Inr (mark_error (count_read len s)))
      | Raised len e \<Rightarrow> ([], Inl e)
      | Classified t len shel score \<Rightarrow>
          if low_score g minscore shel score then ([], Inr (count_read len s))
          else ([], Inr (retain t len shel score (count_read len s))))"

fun for_loop :: "globals \<Rightarrow> real option \<Rightarrow> scan_state \<Rightarrow> string list \<Rightarrow> scan_state result" where
  "for_loop g minscore s [] = ([], Inr s)"
| "for_loop g minscore s (raw_line # file) =
     then_do (loop_body g minscore s raw_line) (\<lambda>s'. for_loop g minscore s' file)"

text \<open>\<^verbatim>\<open>sum([len(scores) for scores in all_scores.values()])\<close>\<close>

definition filt_seqs :: "scan_state \<Rightarrow> nat" where
  "filt_seqs s = sum_list (map (\<lambda>scores. length scores) (map snd (all_scores s)))"

section \<open>Statistics and the selection of the score\<close>

text \<open>\<^verbatim>\<open>statistics.mean\<close>: the empty list raises \<^verbatim>\<open>StatisticsError\<close>.\<close>

definition mean :: "real list \<Rightarrow> error + real" where
  "mean xs = (if xs = [] then Inl StatisticsError else Inr (sum_list xs / real (length xs)))"

text \<open>
  A dictionary comprehension \<^verbatim>\<open>{k: f(k, d[k]) for k in d}\<close> whose value expression may
  raise.
\<close>

fun comprehension :: "(string \<Rightarrow> 'v \<Rightarrow> error + 'w) \<Rightarrow> (string \<times> 'v) list \<Rightarrow> error + (string \<times> 'w) list" where
  "comprehension f [] = Inr []"
| "comprehension f ((k, v) # d) =
     (case f k v of
        Inl e \<Rightarrow> Inl e
      | Inr w \<Rightarrow> (case comprehension f d of Inl e \<Rightarrow> Inl e | Inr d' \<Rightarrow> Inr ((k, w) # d')))"

text \<open>\<^verbatim>\<open>math.log10\<close>: \<^verbatim>\<open>ValueError\<close> outside its domain.\<close>

definition log10 :: "real \<Rightarrow> error + real" where
  "log10 x = (if x \<le> 0 then Inl ValueError else Inr (log 10 x))"

text \<open>\<^verbatim>\<open>scores[tid] / lengths[tid] * 100\<close>\<close>

definition norma_score :: "(string \<times> real) list \<Rightarrow> string \<Rightarrow> real \<Rightarrow> error + real" where
  "norma_score lengths t sc =
     (case map_of lengths t of
        None \<Rightarrow> Inl KeyError
      | Some l \<Rightarrow> if l = 0 then Inl ZeroDivisionError else Inr (sc / l * 100))"

text \<open>The chain \<^verbatim>\<open>if scoring is Scoring.SHEL: ... else: raise\<close>\<close>

definition select_scores :: "globals \<Rightarrow> scan_state \<Rightarrow> (string \<times> real) list result" where
  "select_scores g s =
     (case scoring g of
        SHEL \<Rightarrow> ([], comprehension (\<lambda>t xs. mean (map real_of_int xs)) (all_scores s))
      | KRAKEN \<Rightarrow> ([], comprehension (\<lambda>t xs. mean xs) (all_kmerel s))
      | LENGTH \<Rightarrow> ([], comprehension (\<lambda>t xs. mean (map real_of_int xs)) (all_length s))
      | LOGLENGTH \<Rightarrow>
          ([], comprehension
                 (\<lambda>t xs. case mean (map real_of_int xs) of Inl e \<Rightarrow> Inl e | Inr m \<Rightarrow> log10 m)
                 (all_length s))
      | NORMA \<Rightarrow>
          ([], case comprehension (\<lambda>t xs. mean (map real_of_int xs)) (all_scores s) of
                 Inl e \<Rightarrow> Inl e
               | Inr scores \<Rightarrow>
                   (case comprehension (\<lambda>t xs. mean (map real_of_int xs)) (all_length s) of
                      Inl e \<Rightarrow> Inl e
                    | Inr lengths \<Rightarrow> comprehension (norma_score lengths) scores))
      | OTHER \<Rightarrow> ([Unsupported_scoring_message], Inl Unsupported_scoring))"

text \<open>
  Modelled from the spec: the class \<^verbatim>\<open>SampleStats\<close> of \<^verbatim>\<open>recentrifuge.stats\<close>, which
  is not part of the module. The spec's RunStatistics: the four counters, the number of
  taxa and, for each of the three metrics, minimum, maximum and arithmetic mean over the
  values of all taxa together. Python's \<^verbatim>\<open>min\<close> of no value raises \<^verbatim>\<open>ValueError\<close>.
\<close>

record MetricStats =
  mini :: real
  maxi :: real
  avrg :: real

record RunStatistics =
  seq_read :: int
  stat_nt_read :: int
  seq_unclas :: int
  seq_filt :: nat
  stat_sco :: MetricStats
  stat_sco2 :: MetricStats
  stat_len :: MetricStats
  num_taxa :: nat

definition metric_stats :: "real list \<Rightarrow> error + MetricStats" where
  "metric_stats xs =
     (if xs = [] then Inl ValueError
      else Inr \<lparr>mini = Min (set xs), maxi = Max (set xs),
                avrg = sum_list xs / real (length xs)\<rparr>)"

definition SampleStats :: "scan_state \<Rightarrow> error + RunStatistics" where
  "SampleStats s =
     (case metric_stats (map real_of_int (concat (map snd (all_scores s)))) of
        Inl e \<Rightarrow> Inl e
      | Inr sc \<Rightarrow>
          (case metric_stats (concat (map snd (all_kmerel s))) of
             Inl e \<Rightarrow> Inl e
           | Inr sc2 \<Rightarrow>
               (case metric_stats (map real_of_int (concat (map snd (all_length s)))) of
                  Inl e \<Rightarrow> Inl e
                | Inr ls \<Rightarrow>
                    Inr \<lparr>seq_read = num_read s, stat_nt_read = nt_read s,
                         seq_unclas = num_uncl s, seq_filt = filt_seqs s,
                         stat_sco = sc, stat_sco2 = sc2, stat_len = ls,
                         num_taxa = length (all_scores s)\<rparr>)))"

section \<open>\<^verbatim>\<open>read_generic_output\<close>\<close>

text \<open>
  The lines that the file object yields, each with its newline when it has one. The text
  is what Python's text layer delivers, after the translation of line ends.
\<close>

fun readlines :: "string \<Rightarrow> string list" where
  "readlines [] = []"
| "readlines (c # cs) =
     (if c = NL then [c] # readlines cs
      else (case readlines cs of
              [] \<Rightarrow> [[c]]
            | l # ls \<Rightarrow> (c # l) # ls))"

text \<open>\<^verbatim>\<open>file.readline()\<close> on the fresh file: the empty string at the end of the file.\<close>

definition readline :: "string list \<Rightarrow> string" where
  "readline ls = (case ls of [] \<Rightarrow> [] | l # _ \<Rightarrow> l)"

text \<open>
  What the function returns: statistics, abundances counter, scores. Its first component,
  the log string, is left out: it is assembled from the statistics by the colour helpers
  of \<^verbatim>\<open>recentrifuge.config\<close>, which are not part of the module.
\<close>

type_synonym returned = "RunStatistics \<times> (string \<times> nat) list \<times> (string \<times> real) list"

text \<open>The code after the \<^verbatim>\<open>with\<close> block, from the test for a truncated file on.\<close>

definition after_scan :: "globals \<Rightarrow> scan_state \<Rightarrow> returned result" where
  "after_scan g s =
     then_do (if error_read s = num_read s + 1 then [Seems_truncated] else [], Inr ())
       (\<lambda>_. let counts = map (\<lambda>(t, scores). (t, length scores)) (all_scores s)
            in if num_read s = 0 then ([], Inl Cannot_read_any_sequence)
               else if filt_seqs s = 0 then ([], Inl No_sequence_passed_the_filter)
               else (case SampleStats s of
                       Inl e \<Rightarrow> ([], Inl e)
                     | Inr stat \<Rightarrow>
                         then_do (select_scores g s)
                           (\<lambda>out_scores. ([], Inr (stat, counts, out_scores)))))"

text \<open>
  \<^verbatim>\<open>read_generic_output(output_file, format, minscore)\<close>. The file is \<open>None\<close> when
  \<^verbatim>\<open>open\<close> raises \<^verbatim>\<open>FileNotFoundError\<close>, and its text otherwise. The parameter
  \<^verbatim>\<open>format\<close> is never read.
\<close>

definition read_generic_output ::
  "globals \<Rightarrow> string option \<Rightarrow> GenericFormat \<Rightarrow> real option \<Rightarrow> returned result" where
  "read_generic_output g output_file format minscore =
     (case output_file of
        None \<Rightarrow> ([], Inl Cannot_read_file)
      | Some content \<Rightarrow>
          let file = readlines content;
              header = split_on TAB (readline file)
          in if length header \<noteq> 5
             then ([Format_not_supported header], Inl Unsupported_file_format)
             else then_do (for_loop g minscore initial_state (tl file)) (after_scan g))"

section \<open>Notions of the specification\<close>

text \<open>\<^verbatim>\<open>sep.join(fields)\<close>, for writing the lines of a file.\<close>

fun join :: "string \<Rightarrow> string list \<Rightarrow> string" where
  "join sep [] = []"
| "join sep [f] = f"
| "join sep (f # fs) = f @ sep @ join sep fs"

text \<open>
  Inputs for the examples: the constants of Kraken for the global names, a descriptor, and
  the header line of the spec's scenarios.
\<close>

abbreviation example_globals :: "Scoring \<Rightarrow> globals" where
  "example_globals policy \<equiv> \<lparr>UNCLASSIFIED = ''U'', K_MER_SIZE = 35, scoring = policy\<rparr>"

abbreviation example_format :: GenericFormat where
  "example_format \<equiv>
     \<lparr>self_typ = Some TSV, self_tid = 3, self_len = 4, self_sco = 5, self_unc = ''U''\<rparr>"

abbreviation example_header :: string where
  "example_header \<equiv> join [TAB] [''C'', ''label'', ''taxid'', ''length'', ''maps''] @ [NL]"

text \<open>
  The k-mer mappings of a record as the data model of the spec has them: a sequence of
  pairs of a taxon id and a count, one for each token \<^verbatim>\<open>taxonId:count\<close>. \<open>None\<close> when
  the token has no colon or its count is no integer.
\<close>

definition kmer_pair :: "string \<Rightarrow> (string \<times> int) option" where
  "kmer_pair pair =
     (case split_on (CHR '':'') pair of
        c0 # c1 # _ \<Rightarrow> map_option (Pair c0) (py_int c1)
      | _ \<Rightarrow> None)"

text \<open>The k-mer count mapped to a taxon, repeated pairs summed, and the total count.\<close>

definition own_count :: "string \<Rightarrow> (string \<times> int) list \<Rightarrow> int" where
  "own_count t pairs = sum_list (map snd (filter (\<lambda>p. fst p = t) pairs))"

definition total_count :: "(string \<times> int) list \<Rightarrow> int" where
  "total_count pairs = sum_list (map snd pairs)"

text \<open>The list a dictionary holds for a taxon; no list counts as the empty one.\<close>

definition entries :: "(string \<times> 'v list) list \<Rightarrow> string \<Rightarrow> 'v list" where
  "entries d t = (case map_of d t of None \<Rightarrow> [] | Some vs \<Rightarrow> vs)"

text \<open>The metric that the threshold is compared with under the scoring policy.\<close>

definition policy_metric :: "globals \<Rightarrow> int \<Rightarrow> real \<Rightarrow> real" where
  "policy_metric g shel score = (if scoring g = KRAKEN then score else real_of_int shel)"

text \<open>The keys of a dictionary of lists, in order, each with the length of its list.\<close>

definition shape :: "(string \<times> 'v list) list \<Rightarrow> (string \<times> nat) list" where
  "shape d = map (\<lambda>(t, vs). (t, length vs)) d"

text \<open>
  The invariant of the per-taxon accumulation: the three dictionaries hold the same taxa,
  in the same order, with lists of the same lengths.
\<close>

definition lists_aligned :: "scan_state \<Rightarrow> bool" where
  "lists_aligned s \<longleftrightarrow>
     shape (all_scores s) = shape (all_kmerel s) \<and> shape (all_kmerel s) = shape (all_length s)"

text \<open>A line errors when it ends in one of the two handlers of \<^verbatim>\<open>ValueError\<close>.\<close>

definition errored :: "globals \<Rightarrow> string \<Rightarrow> bool" where
  "errored g raw_line =
     (case parse_record g raw_line of
        Bad_line _ \<Rightarrow> True
      | Bad_length _ \<Rightarrow> True
      | Bad_elements _ _ \<Rightarrow> True
      | _ \<Rightarrow> False)"

text \<open>A run that has not raised.\<close>

definition returns :: "'a result \<Rightarrow> bool" where
  "returns r = (case snd r of Inl _ \<Rightarrow> False | Inr _ \<Rightarrow> True)"

text \<open>
  The retained records of a scan, in arrival order: the lines that are derived as classified
  records and that the threshold test does not send away, each as taxon id, length, shel
  and relative score.
\<close>

definition retained_records ::
  "globals \<Rightarrow> real option \<Rightarrow> string list \<Rightarrow> (string \<times> int \<times> int \<times> real) list" where
  "retained_records g minscore rows =
     concat (map (\<lambda>raw_line.
                    case parse_record g raw_line of
                      Classified t len shel score \<Rightarrow>
                        if low_score g minscore shel score then [] else [(t, len, shel, score)]
                    | _ \<Rightarrow> [])
                 rows)"

definition of_taxon :: "string \<Rightarrow> (string \<times> int \<times> int \<times> real) list \<Rightarrow> (string \<times> int \<times> int \<times> real) list" where
  "of_taxon t records = filter (\<lambda>r. fst r = t) records"

definition record_length :: "string \<times> int \<times> int \<times> real \<Rightarrow> int" where
  "record_length r = fst (snd r)"

definition record_shel :: "string \<times> int \<times> int \<times> real \<Rightarrow> int" where
  "record_shel r = fst (snd (snd r))"

definition record_score :: "string \<times> int \<times> int \<times> real \<Rightarrow> real" where
  "record_score r = snd (snd (snd r))"

text \<open>The arithmetic mean of the spec.\<close>

definition average :: "real list \<Rightarrow> real" where
  "average xs = sum_list xs / real (length xs)"

section \<open>Evaluation and basic facts\<close>

lemmas evaluation =
  TAB_def NL_def is_space_def strip_def is_digit_def digit_val_def unsigned_val_def py_int_def
  upper_def to_upper_def GenericType_item_def column_field_def GenericFormat_init_def
  counter_get_def parse_record_def loop_body_def then_do_def count_read_def mark_error_def
  low_score_def retain_def dict_append_def read_generic_output_def readline_def
  after_scan_def filt_seqs_def initial_state_def SampleStats_def metric_stats_def
  select_scores_def mean_def norma_score_def

lemma split_on_length: "length (split_on sep s) = Suc (count_list s sep)"
  by (induction s) (auto split: list.splits)

lemma readline_readlines:
  "readline (readlines content) =
     takeWhile (\<lambda>c. c \<noteq> NL) content @ (if NL \<in> set content then [NL] else [])"
  by (induction content) (auto simp: readline_def split: list.splits)

lemma header_fields:
  "length (split_on TAB (readline (readlines content))) =
     Suc (count_list (takeWhile (\<lambda>c. c \<noteq> NL) content) TAB)"
  by (simp add: split_on_length readline_readlines NL_def TAB_def)

lemma not_five_fields:
  "length xs \<noteq> 5 \<Longrightarrow>
   (case xs of [a, b, c, d, e] \<Rightarrow> f a b c d e | _ \<Rightarrow> z) = z"
  by (auto split: list.splits)

lemma parse_record_Bad_line:
  "length (split_on TAB (strip raw_line)) \<noteq> 5 \<Longrightarrow>
   parse_record g raw_line = Bad_line (strip raw_line)"
  by (simp add: parse_record_def Let_def not_five_fields)

section \<open>The counter of the k-mer mappings\<close>

lemma counter_get_update:
  "counter_get (AList.update k v m) k' = (if k' = k then v else counter_get m k')"
  by (simp add: counter_get_def update_conv')

lemma sum_values_update:
  "sum_list (map snd (AList.update k (counter_get m k + n) m)) = sum_list (map snd m) + n"
  by (induction m) (auto simp: counter_get_def)

lemma count_pairs_pairs:
  "those (map kmer_pair maps) = Some pairs \<Longrightarrow>
   \<exists>m. count_pairs mappings maps = Inr m \<and>
       (\<forall>k. counter_get m k = counter_get mappings k + own_count k pairs) \<and>
       sum_list (map snd m) = sum_list (map snd mappings) + total_count pairs"
proof (induction maps arbitrary: mappings pairs)
  case Nil
  then show ?case by (simp add: own_count_def total_count_def)
next
  case (Cons pair maps)
  from Cons.prems obtain p ps where p: "kmer_pair pair = Some p"
    and ps: "those (map kmer_pair maps) = Some ps" and pairs: "pairs = p # ps"
    by (auto split: option.splits)
  from p obtain c0 c1 rest n where split: "split_on (CHR '':'') pair = c0 # c1 # rest"
    and n: "py_int c1 = Some n" and p_def: "p = (c0, n)"
    by (auto simp: kmer_pair_def split: list.splits)
  let ?m = "AList.update c0 (counter_get mappings c0 + n) mappings"
  from Cons.IH [OF ps, of ?m] obtain m where m: "count_pairs ?m maps = Inr m"
    and get: "\<forall>k. counter_get m k = counter_get ?m k + own_count k ps"
    and total: "sum_list (map snd m) = sum_list (map snd ?m) + total_count ps"
    by blast
  have "count_pairs mappings (pair # maps) = Inr m"
    using split n m by simp
  moreover have "\<forall>k. counter_get m k = counter_get mappings k + own_count k pairs"
    using get by (simp add: counter_get_update pairs p_def own_count_def)
  moreover have "sum_list (map snd m) = sum_list (map snd mappings) + total_count pairs"
    using total by (simp add: sum_values_update pairs p_def total_count_def)
  ultimately show ?case by blast
qed

lemma counter_get_Nil: "counter_get [] k = 0"
  by (simp add: counter_get_def)

lemma parse_record_classified:
  assumes "split_on TAB (strip raw_line) = [clas, label, t, lengths, maps]"
    and "clas \<noteq> UNCLASSIFIED g"
    and "those (map py_int (split_on (CHR ''|'') lengths)) = Some segments"
    and "those (map kmer_pair (remove1 ''|:|'' (split_ws maps))) = Some pairs"
    and "total_count pairs \<noteq> 0"
  shows "parse_record g raw_line =
           Classified t (sum_list segments) (own_count t pairs + K_MER_SIZE g)
             (real_of_int (own_count t pairs) / real_of_int (total_count pairs) * 100)"
proof -
  from count_pairs_pairs [OF assms(4), of "[]"] obtain m
    where m: "count_pairs [] (remove1 ''|:|'' (split_ws maps)) = Inr m"
      and get: "counter_get m t = own_count t pairs"
      and total: "sum_list (map snd m) = total_count pairs"
    by (auto simp: counter_get_Nil)
  show ?thesis
    using assms(1,2,3,5) m get total by (simp add: parse_record_def Let_def)
qed

lemma own_le_total:
  "\<forall>p \<in> set pairs. 0 \<le> snd p \<Longrightarrow> 0 \<le> own_count t pairs \<and> own_count t pairs \<le> total_count pairs"
  unfolding own_count_def total_count_def
  by (induction pairs) auto

lemma own_count_absent: "t \<notin> fst ` set pairs \<Longrightarrow> own_count t pairs = 0"
  unfolding own_count_def by (induction pairs) auto

lemma percent_bounds:
  fixes a b :: int
  assumes "0 \<le> a" "a \<le> b" "b \<noteq> 0"
  shows "0 \<le> real_of_int a / real_of_int b * 100 \<and> real_of_int a / real_of_int b * 100 \<le> 100"
proof -
  have b: "0 < real_of_int b" using assms by simp
  have a: "0 \<le> real_of_int a" "real_of_int a \<le> real_of_int b" using assms by simp_all
  show ?thesis using a b by (simp add: divide_le_eq)
qed

section \<open>Appending to a dictionary of lists\<close>

lemma dict_append_Nil: "dict_append k v [] = [(k, [v])]"
  by (simp add: dict_append_def)

lemma dict_append_Cons:
  "dict_append k v ((k', vs) # d) =
     (if k' = k then (k, vs @ [v]) # d else (k', vs) # dict_append k v d)"
  by (simp add: dict_append_def split: option.splits)

lemma map_of_dict_append:
  "map_of (dict_append k v d) t = (if t = k then Some (entries d k @ [v]) else map_of d t)"
  by (induction d) (auto simp: dict_append_Nil dict_append_Cons entries_def)

section \<open>The format descriptor\<close>

text \<open>
  C1. The claim: construction yields a fully populated descriptor or raises; with an
  unknown \<^verbatim>\<open>TYP\<close> it raises. The constructor does not: for the specifier below it
  prints the message for the unknown type and returns an object with \<^verbatim>\<open>tid\<close>,
  \<^verbatim>\<open>len\<close>, \<^verbatim>\<open>sco\<close> and \<^verbatim>\<open>unc\<close> set and no \<^verbatim>\<open>typ\<close> attribute.
\<close>

theorem unknown_type_yields_partial_descriptor:
  "GenericFormat_init ''TYP:XLS,TID:1,LEN:2,SCO:3,UNC:0'' =
     ([Format_malformed ''Unknown file TYPe, valid options are CSV or TSV''],
      Inr \<lparr>self_typ = None, self_tid = 1, self_len = 2, self_sco = 3, self_unc = ''0''\<rparr>)"
  by (simp add: evaluation)

section \<open>Errors of single records and of the whole file\<close>

text \<open>
  C2. The claim: a record whose k-mer counts sum to zero is skipped and the scan goes on.
  In the function the division by the zero total raises \<^verbatim>\<open>ZeroDivisionError\<close>, which
  the handler of \<^verbatim>\<open>ValueError\<close> does not catch: the scan of the file below stops at its
  first record and the second, a good one, is never read.
\<close>

theorem zero_total_aborts_scan:
  "read_generic_output (example_globals SHEL)
     (Some (example_header @
            join [TAB] [''C'', ''r1'', ''9606'', ''100'', ''9606:0''] @ [NL] @
            join [TAB] [''C'', ''r2'', ''9606'', ''100'', ''9606:45''] @ [NL]))
     format None
   = ([], Inl ZeroDivisionError)"
  by (simp add: evaluation)

text \<open>
  C5. A header line that does not hold exactly four tabs, hence five fields, makes the
  function print the header it found and raise the exception for the unsupported format;
  nothing of the result depends on the lines after the header. A data line with another
  number of fields, in contrast, prints its message, marks the error and lets the loop go
  on.
\<close>

theorem header_mismatch_aborts:
  "(count_list (takeWhile (\<lambda>c. c \<noteq> NL) content) TAB \<noteq> 4 \<longrightarrow>
      read_generic_output g (Some content) format minscore =
        ([Format_not_supported
            (split_on TAB
               (takeWhile (\<lambda>c. c \<noteq> NL) content @ (if NL \<in> set content then [NL] else [])))],
         Inl Unsupported_file_format)) \<and>
   (length (split_on TAB (strip raw_line)) \<noteq> 5 \<longrightarrow>
      loop_body g minscore s raw_line =
        ([Error_parsing_line (strip raw_line)], Inr (mark_error s)))"
proof (intro conjI impI)
  assume "count_list (takeWhile (\<lambda>c. c \<noteq> NL) content) TAB \<noteq> 4"
  then have "length (split_on TAB (readline (readlines content))) \<noteq> 5"
    by (simp add: header_fields)
  then show "read_generic_output g (Some content) format minscore =
        ([Format_not_supported
            (split_on TAB
               (takeWhile (\<lambda>c. c \<noteq> NL) content @ (if NL \<in> set content then [NL] else [])))],
         Inl Unsupported_file_format)"
    by (simp add: read_generic_output_def Let_def readline_readlines)
next
  assume "length (split_on TAB (strip raw_line)) \<noteq> 5"
  then show "loop_body g minscore s raw_line =
        ([Error_parsing_line (strip raw_line)], Inr (mark_error s))"
    by (simp add: loop_body_def parse_record_Bad_line)
qed

theorem header_mismatch_aborts_witness:
  "read_generic_output (example_globals SHEL)
     (Some (join [TAB] [''C'', ''label'', ''taxid'', ''length''] @ [NL] @
            join [TAB] [''C'', ''r1'', ''9606'', ''100'', ''9606:45''] @ [NL]))
     example_format None
   = ([Format_not_supported [''C'', ''label'', ''taxid'', ''length'' @ [NL]]],
      Inl Unsupported_file_format) \<and>
   loop_body (example_globals SHEL) None initial_state
     (join [TAB] [''C'', ''r1'', ''9606'', ''100''] @ [NL])
   = ([Error_parsing_line (join [TAB] [''C'', ''r1'', ''9606'', ''100''])],
      Inr (initial_state\<lparr>error_read := 1\<rparr>))"
  using header_mismatch_aborts
    [of "join [TAB] [''C'', ''label'', ''taxid'', ''length''] @ [NL] @
         join [TAB] [''C'', ''r1'', ''9606'', ''100'', ''9606:45''] @ [NL]"
        "(example_globals SHEL)" example_format None
        "join [TAB] [''C'', ''r1'', ''9606'', ''100''] @ [NL]" initial_state]
  by (simp add: TAB_def NL_def strip_def is_space_def mark_error_def initial_state_def)

text \<open>
  C6. When the scan of a file with a good header has come to its end, the function raises
  if no read was counted, and raises if no read was retained; it returns only with at
  least one read counted and one retained. The witness is the file of the spec whose one
  record is unclassified.
\<close>

theorem empty_result_raises:
  "count_list (takeWhile (\<lambda>c. c \<noteq> NL) content) TAB = 4 \<Longrightarrow>
   for_loop g minscore initial_state (tl (readlines content)) = (out, Inr s) \<Longrightarrow>
   (num_read s = 0 \<longrightarrow>
      snd (read_generic_output g (Some content) format minscore) = Inl Cannot_read_any_sequence) \<and>
   (num_read s \<noteq> 0 \<and> filt_seqs s = 0 \<longrightarrow>
      snd (read_generic_output g (Some content) format minscore) =
        Inl No_sequence_passed_the_filter) \<and>
   (\<forall>r. snd (read_generic_output g (Some content) format minscore) = Inr r \<longrightarrow>
      num_read s \<noteq> 0 \<and> filt_seqs s \<noteq> 0)"
  by (auto simp: read_generic_output_def Let_def header_fields then_do_def after_scan_def
           split: prod.splits sum.splits)

theorem empty_result_raises_witness:
  "for_loop (example_globals SHEL) None initial_state
     (tl (readlines (example_header @
                     join [TAB] [''U'', ''r1'', ''0'', ''100'', ''0:50''])))
   = ([], Inr \<lparr>all_scores = [], all_kmerel = [], all_length = [],
               num_read = 1, nt_read = 100, num_uncl = 1, error_read = - 1\<rparr>) \<and>
   snd (read_generic_output (example_globals SHEL)
     (Some (example_header @
            join [TAB] [''U'', ''r1'', ''0'', ''100'', ''0:50'']))
     example_format None)
   = Inl No_sequence_passed_the_filter"
proof -
  let ?g = "example_globals SHEL"
  let ?content = "example_header @
                  join [TAB] [''U'', ''r1'', ''0'', ''100'', ''0:50'']"
  let ?s = "\<lparr>all_scores = [], all_kmerel = [], all_length = [],
             num_read = 1, nt_read = 100, num_uncl = 1, error_read = - 1\<rparr>"
  have header: "count_list (takeWhile (\<lambda>c. c \<noteq> NL) ?content) TAB = 4"
    by (simp add: TAB_def NL_def)
  have scan: "for_loop ?g None initial_state (tl (readlines ?content)) = ([], Inr ?s)"
    by (simp add: evaluation)
  have "filt_seqs ?s = 0"
    by (simp add: filt_seqs_def)
  with empty_result_raises [OF header scan, of example_format] scan show ?thesis
    by simp
qed

section \<open>The derived metrics of a classified record\<close>

text \<open>
  C4, as the code has it. A line of five fields whose flag is not the marker of the
  unclassified reads, whose length segments are integers and whose mapping tokens, the
  first \<^verbatim>\<open>|:|\<close> apart, all read as pairs with a total count other than zero, is
  derived as a classified record: shel is the count of the pairs of its own taxon plus
  \<^verbatim>\<open>K_MER_SIZE\<close>, the relative score is that count over the total count times 100. The
  relative score lies between 0 and 100 when no count of the record is negative.
\<close>

theorem shel_and_relative_score:
  assumes "split_on TAB (strip raw_line) = [clas, label, t, lengths, maps]"
    and "clas \<noteq> UNCLASSIFIED g"
    and "those (map py_int (split_on (CHR ''|'') lengths)) = Some segments"
    and "those (map kmer_pair (remove1 ''|:|'' (split_ws maps))) = Some pairs"
    and "total_count pairs \<noteq> 0"
  shows "parse_record g raw_line =
           Classified t (sum_list segments) (own_count t pairs + K_MER_SIZE g)
             (real_of_int (own_count t pairs) / real_of_int (total_count pairs) * 100) \<and>
         ((\<forall>p \<in> set pairs. 0 \<le> snd p) \<longrightarrow>
            0 \<le> real_of_int (own_count t pairs) / real_of_int (total_count pairs) * 100 \<and>
            real_of_int (own_count t pairs) / real_of_int (total_count pairs) * 100 \<le> 100)"
proof (intro conjI impI)
  show "parse_record g raw_line =
           Classified t (sum_list segments) (own_count t pairs + K_MER_SIZE g)
             (real_of_int (own_count t pairs) / real_of_int (total_count pairs) * 100)"
    using assms by (rule parse_record_classified)
next
  assume nonneg: "\<forall>p \<in> set pairs. 0 \<le> snd p"
  from own_le_total [OF nonneg, of t] assms(5)
  have "0 \<le> real_of_int (own_count t pairs) / real_of_int (total_count pairs) * 100 \<and>
        real_of_int (own_count t pairs) / real_of_int (total_count pairs) * 100 \<le> 100"
    by (intro percent_bounds) auto
  then show "0 \<le> real_of_int (own_count t pairs) / real_of_int (total_count pairs) * 100"
    and "real_of_int (own_count t pairs) / real_of_int (total_count pairs) * 100 \<le> 100"
    by simp_all
qed

theorem shel_and_relative_score_witness:
  "parse_record (example_globals SHEL)
     (join [TAB] [''C'', ''r1'', ''9606'', ''50|50'', ''9606:10 |:| 1:5 9606:3''] @ [NL])
   = Classified ''9606'' 100 48 (650 / 9) \<and>
   0 \<le> (650 / 9 :: real) \<and> (650 / 9 :: real) \<le> 100"
proof -
  let ?line = "join [TAB] [''C'', ''r1'', ''9606'', ''50|50'', ''9606:10 |:| 1:5 9606:3''] @ [NL]"
  let ?pairs = "[(''9606'', 10), (''1'', 5), (''9606'', 3)] :: (string \<times> int) list"
  have 1: "split_on TAB (strip ?line) = [''C'', ''r1'', ''9606'', ''50|50'', ''9606:10 |:| 1:5 9606:3'']"
    by (simp add: evaluation)
  have 2: "''C'' \<noteq> UNCLASSIFIED (example_globals SHEL)"
    by simp
  have 3: "those (map py_int (split_on (CHR ''|'') ''50|50'')) = Some [50, 50]"
    by (simp add: evaluation)
  have 4: "those (map kmer_pair (remove1 ''|:|'' (split_ws ''9606:10 |:| 1:5 9606:3''))) = Some ?pairs"
    by (simp add: evaluation kmer_pair_def)
  have 5: "total_count ?pairs \<noteq> 0"
    by (simp add: total_count_def)
  from shel_and_relative_score [OF 1 2 3 4 5] show ?thesis
    by (simp add: own_count_def total_count_def)
qed

text \<open>
  C4 as the claim states it, without the condition on the signs, fails: \<^verbatim>\<open>int\<close> reads a
  negative count, and the record below, with the total count 5, has the relative score 200.
\<close>

theorem negative_count_relative_score:
  "parse_record (example_globals SHEL)
     (join [TAB] [''C'', ''r1'', ''9606'', ''100'', ''9606:10 1:-5''] @ [NL])
   = Classified ''9606'' 100 45 200 \<and> \<not> (200 \<le> (100 :: real))"
  by (simp add: evaluation)

text \<open>
  C10. A classified record whose taxon id is the key of none of its mapping pairs, with a
  total count other than zero, is no error: it is derived with shel \<^verbatim>\<open>K_MER_SIZE\<close> and
  relative score 0, the loop body prints nothing, counts the read and leaves
  \<^verbatim>\<open>error_read\<close> as it is; unless the threshold test sends it away, the three lists of
  its taxon each take its entry at their end.
\<close>

theorem own_taxon_without_mapping:
  assumes "split_on TAB (strip raw_line) = [clas, label, t, lengths, maps]"
    and "clas \<noteq> UNCLASSIFIED g"
    and "those (map py_int (split_on (CHR ''|'') lengths)) = Some segments"
    and "those (map kmer_pair (remove1 ''|:|'' (split_ws maps))) = Some pairs"
    and "t \<notin> fst ` set pairs"
    and "total_count pairs \<noteq> 0"
  shows "parse_record g raw_line = Classified t (sum_list segments) (K_MER_SIZE g) 0 \<and>
         (\<exists>s'. loop_body g minscore s raw_line = ([], Inr s') \<and>
               error_read s' = error_read s \<and>
               num_read s' = num_read s + 1 \<and>
               (\<not> low_score g minscore (K_MER_SIZE g) 0 \<longrightarrow>
                  map_of (all_scores s') t = Some (entries (all_scores s) t @ [K_MER_SIZE g]) \<and>
                  map_of (all_kmerel s') t = Some (entries (all_kmerel s) t @ [0]) \<and>
                  map_of (all_length s') t = Some (entries (all_length s) t @ [sum_list segments])))"
proof -
  have parsed: "parse_record g raw_line = Classified t (sum_list segments) (K_MER_SIZE g) 0"
    using parse_record_classified [OF assms(1,2,3,4,6)] own_count_absent [OF assms(5)]
    by simp
  show ?thesis
  proof (cases "low_score g minscore (K_MER_SIZE g) 0")
    case True
    then show ?thesis
      using parsed by (simp add: loop_body_def count_read_def)
  next
    case False
    then show ?thesis
      using parsed
      by (simp add: loop_body_def count_read_def retain_def map_of_dict_append)
  qed
qed

theorem own_taxon_without_mapping_witness:
  "parse_record (example_globals SHEL)
     (join [TAB] [''C'', ''r1'', ''9606'', ''100'', ''1:5 2:7''] @ [NL])
   = Classified ''9606'' 100 35 0 \<and>
   loop_body (example_globals SHEL) (Some 35) initial_state
     (join [TAB] [''C'', ''r1'', ''9606'', ''100'', ''1:5 2:7''] @ [NL])
   = ([], Inr \<lparr>all_scores = [(''9606'', [35])], all_kmerel = [(''9606'', [0])],
               all_length = [(''9606'', [100])],
               num_read = 1, nt_read = 100, num_uncl = 0, error_read = - 1\<rparr>)"
proof -
  let ?line = "join [TAB] [''C'', ''r1'', ''9606'', ''100'', ''1:5 2:7''] @ [NL]"
  let ?pairs = "[(''1'', 5), (''2'', 7)] :: (string \<times> int) list"
  have 1: "split_on TAB (strip ?line) = [''C'', ''r1'', ''9606'', ''100'', ''1:5 2:7'']"
    by (simp add: evaluation)
  have 2: "''C'' \<noteq> UNCLASSIFIED (example_globals SHEL)"
    by simp
  have 3: "those (map py_int (split_on (CHR ''|'') ''100'')) = Some [100]"
    by (simp add: evaluation)
  have 4: "those (map kmer_pair (remove1 ''|:|'' (split_ws ''1:5 2:7''))) = Some ?pairs"
    by (simp add: evaluation kmer_pair_def)
  have 5: "''9606'' \<notin> fst ` set ?pairs"
    by simp
  have 6: "total_count ?pairs \<noteq> 0"
    by (simp add: total_count_def)
  have body: "loop_body (example_globals SHEL) (Some 35) initial_state ?line
     = ([], Inr \<lparr>all_scores = [(''9606'', [35])], all_kmerel = [(''9606'', [0])],
               all_length = [(''9606'', [100])],
               num_read = 1, nt_read = 100, num_uncl = 0, error_read = - 1\<rparr>)"
    by (simp add: evaluation)
  from own_taxon_without_mapping [OF 1 2 3 4 5 6, of "Some 35" initial_state] body
  show ?thesis
    by simp
qed

section \<open>The minimum score\<close>

lemma filt_dict_append:
  "sum_list (map (length \<circ> snd) (dict_append k v d)) = Suc (sum_list (map (length \<circ> snd) d))"
  by (induction d) (auto simp: dict_append_Nil dict_append_Cons)

lemma filt_seqs_retain: "filt_seqs (retain t len shel score s) = Suc (filt_seqs s)"
  by (simp add: filt_seqs_def retain_def filt_dict_append)

lemma filt_seqs_count_read: "filt_seqs (count_read len s) = filt_seqs s"
  by (simp add: filt_seqs_def count_read_def)

lemma filt_seqs_mark_error: "filt_seqs (mark_error s) = filt_seqs s"
  by (simp add: filt_seqs_def mark_error_def)

lemma retain_differs: "retain t len shel score s \<noteq> s"
proof
  assume "retain t len shel score s = s"
  then have "filt_seqs (retain t len shel score s) = filt_seqs s" by simp
  then show False by (simp add: filt_seqs_retain)
qed

lemma low_score_metric:
  "low_score g (Some T) shel score \<longleftrightarrow> policy_metric g shel score < T"
  by (simp add: low_score_def policy_metric_def)

lemma low_score_mono:
  "T \<le> T' \<Longrightarrow> low_score g (Some T) shel score \<Longrightarrow> low_score g (Some T') shel score"
  by (auto simp: low_score_def)

lemma loop_body_antitone:
  assumes "T \<le> T'"
    and "loop_body g (Some T) s1 raw_line = (out, Inr s1')"
    and "filt_seqs s2 \<le> filt_seqs s1"
  shows "\<exists>s2'. loop_body g (Some T') s2 raw_line = (out, Inr s2') \<and> filt_seqs s2' \<le> filt_seqs s1'"
proof (cases "parse_record g raw_line")
  case (Classified t len shel score)
  show ?thesis
  proof (cases "low_score g (Some T) shel score")
    case True
    with low_score_mono [OF assms(1) this] assms(2,3) Classified show ?thesis
      by (auto simp: loop_body_def filt_seqs_count_read)
  next
    case False
    with assms(2,3) Classified show ?thesis
      by (cases "low_score g (Some T') shel score")
         (auto simp: loop_body_def filt_seqs_count_read filt_seqs_retain)
  qed
qed (use assms in \<open>auto simp: loop_body_def filt_seqs_def count_read_def mark_error_def\<close>)

lemma for_loop_antitone:
  assumes "T \<le> T'"
  shows "for_loop g (Some T) s1 rows = (out, Inr s1') \<Longrightarrow> filt_seqs s2 \<le> filt_seqs s1 \<Longrightarrow>
         \<exists>s2'. for_loop g (Some T') s2 rows = (out, Inr s2') \<and> filt_seqs s2' \<le> filt_seqs s1'"
proof (induction rows arbitrary: s1 s2 out)
  case Nil
  then show ?case by simp
next
  case (Cons raw_line rows)
  from Cons.prems(1) obtain o1 m1 o2 where
    body: "loop_body g (Some T) s1 raw_line = (o1, Inr m1)"
    and rest: "for_loop g (Some T) m1 rows = (o2, Inr s1')"
    and out: "out = o1 @ o2"
    by (auto simp: then_do_def split: prod.splits sum.splits)
  from loop_body_antitone [OF assms body Cons.prems(2)] obtain m2 where
    body2: "loop_body g (Some T') s2 raw_line = (o1, Inr m2)" and le: "filt_seqs m2 \<le> filt_seqs m1"
    by blast
  from Cons.IH [OF rest le] obtain s2' where
    "for_loop g (Some T') m2 rows = (o2, Inr s2')" "filt_seqs s2' \<le> filt_seqs s1'"
    by blast
  with body2 out show ?case
    by (simp add: then_do_def)
qed

text \<open>
  C3. With a threshold \<open>T\<close>, a derived classified record is retained (its three entries
  are appended) exactly when its metric under the scoring policy, the relative score under
  KRAKEN and shel under every other policy, is at least \<open>T\<close>, and it is only counted as
  read exactly when the metric is below \<open>T\<close>. For the same lines, a scan with a higher
  threshold prints the same messages, completes as well and retains no more records.
\<close>

theorem minscore_filter_antitone:
  "(parse_record g raw_line = Classified t len shel score \<longrightarrow>
      (loop_body g (Some T) s raw_line = ([], Inr (retain t len shel score (count_read len s)))
         \<longleftrightarrow> T \<le> policy_metric g shel score) \<and>
      (loop_body g (Some T) s raw_line = ([], Inr (count_read len s))
         \<longleftrightarrow> policy_metric g shel score < T)) \<and>
   (T \<le> T' \<longrightarrow> for_loop g (Some T) s0 rows = (out, Inr s1) \<longrightarrow>
      (\<exists>s2. for_loop g (Some T') s0 rows = (out, Inr s2) \<and> filt_seqs s2 \<le> filt_seqs s1))"
proof (intro conjI impI)
  assume parsed: "parse_record g raw_line = Classified t len shel score"
  show "loop_body g (Some T) s raw_line = ([], Inr (retain t len shel score (count_read len s)))
         \<longleftrightarrow> T \<le> policy_metric g shel score"
    using parsed retain_differs [of t len shel score "count_read len s"]
    by (auto simp: loop_body_def low_score_metric)
  show "loop_body g (Some T) s raw_line = ([], Inr (count_read len s))
         \<longleftrightarrow> policy_metric g shel score < T"
    using parsed retain_differs [of t len shel score "count_read len s"]
    by (auto simp: loop_body_def low_score_metric)
next
  assume "T \<le> T'" and "for_loop g (Some T) s0 rows = (out, Inr s1)"
  then show "\<exists>s2. for_loop g (Some T') s0 rows = (out, Inr s2) \<and> filt_seqs s2 \<le> filt_seqs s1"
    by (rule for_loop_antitone) simp
qed

theorem minscore_filter_antitone_witness:
  "(40 :: real) \<le> policy_metric (example_globals SHEL) 45 100 \<and>
   loop_body (example_globals SHEL) (Some 40) initial_state
     (join [TAB] [''C'', ''r1'', ''9606'', ''100'', ''9606:10''] @ [NL])
   = ([], Inr (retain ''9606'' 100 45 100 (count_read 100 initial_state))) \<and>
   (\<exists>s1 s2.
      for_loop (example_globals SHEL) (Some 40) initial_state
        [join [TAB] [''C'', ''r1'', ''9606'', ''100'', ''9606:10''] @ [NL],
         join [TAB] [''C'', ''r2'', ''9606'', ''100'', ''9606:20''] @ [NL]] = ([], Inr s1) \<and>
      for_loop (example_globals SHEL) (Some 50) initial_state
        [join [TAB] [''C'', ''r1'', ''9606'', ''100'', ''9606:10''] @ [NL],
         join [TAB] [''C'', ''r2'', ''9606'', ''100'', ''9606:20''] @ [NL]] = ([], Inr s2) \<and>
      filt_seqs s1 = 2 \<and> filt_seqs s2 = 1 \<and> filt_seqs s2 \<le> filt_seqs s1)"
proof -
  let ?g = "example_globals SHEL"
  let ?l1 = "join [TAB] [''C'', ''r1'', ''9606'', ''100'', ''9606:10''] @ [NL]"
  let ?l2 = "join [TAB] [''C'', ''r2'', ''9606'', ''100'', ''9606:20''] @ [NL]"
  let ?s1 = "\<lparr>all_scores = [(''9606'', [45, 55])], all_kmerel = [(''9606'', [100, 100])],
              all_length = [(''9606'', [100, 100])],
              num_read = 2, nt_read = 200, num_uncl = 0, error_read = - 1\<rparr>"
  let ?s2 = "\<lparr>all_scores = [(''9606'', [55])], all_kmerel = [(''9606'', [100])],
              all_length = [(''9606'', [100])],
              num_read = 2, nt_read = 200, num_uncl = 0, error_read = - 1\<rparr>"
  have parsed: "parse_record ?g ?l1 = Classified ''9606'' 100 45 100"
    by (simp add: evaluation)
  have metric: "(40 :: real) \<le> policy_metric ?g 45 100"
    by (simp add: policy_metric_def)
  have low: "for_loop ?g (Some 40) initial_state [?l1, ?l2] = ([], Inr ?s1)"
    by (simp add: evaluation)
  have high: "for_loop ?g (Some 50) initial_state [?l1, ?l2] = ([], Inr ?s2)"
    by (simp add: evaluation)
  have counts: "filt_seqs ?s1 = 2" "filt_seqs ?s2 = 1"
    by (simp_all add: filt_seqs_def)
  from minscore_filter_antitone
    [where g = ?g and raw_line = ?l1 and t = "''9606''" and len = 100 and shel = 45
       and score = 100 and T = 40 and s = initial_state and T' = 50 and ?s0.0 = initial_state
       and rows = "[?l1, ?l2]" and out = "[]" and ?s1.0 = ?s1]
    parsed metric low high counts
  show ?thesis
    by simp
qed

section \<open>The invariant of the per-taxon accumulation\<close>

lemma shape_dict_append:
  "shape d = shape d' \<Longrightarrow> shape (dict_append k v d) = shape (dict_append k v' d')"
proof (induction d arbitrary: d')
  case Nil
  then show ?case by (simp add: shape_def dict_append_Nil)
next
  case (Cons p d)
  then obtain p' r where d': "d' = p' # r" and p: "fst p' = fst p" "length (snd p') = length (snd p)"
    and r: "shape d = shape r"
    by (cases d') (auto simp: shape_def split: prod.splits)
  from Cons.IH [OF r] have "shape (dict_append k v d) = shape (dict_append k v' r)" .
  then show ?case
    using p r by (cases p; cases p') (auto simp: d' dict_append_Cons shape_def)
qed

lemma loop_body_lists:
  assumes "loop_body g minscore s raw_line = (out, Inr s')"
  shows "(all_scores s' = all_scores s \<and> all_kmerel s' = all_kmerel s \<and>
          all_length s' = all_length s) \<or>
         (\<exists>t len shel score.
            all_scores s' = dict_append t shel (all_scores s) \<and>
            all_kmerel s' = dict_append t score (all_kmerel s) \<and>
            all_length s' = dict_append t len (all_length s))"
proof (cases "parse_record g raw_line")
  case (Classified t len shel score)
  show ?thesis
  proof (cases "low_score g minscore shel score")
    case True
    with assms Classified show ?thesis
      by (auto simp: loop_body_def count_read_def)
  next
    case False
    with assms Classified have "s' = retain t len shel score (count_read len s)"
      by (simp add: loop_body_def)
    then have "all_scores s' = dict_append t shel (all_scores s) \<and>
            all_kmerel s' = dict_append t score (all_kmerel s) \<and>
            all_length s' = dict_append t len (all_length s)"
      by (simp add: retain_def count_read_def)
    then show ?thesis by blast
  qed
qed (use assms in \<open>auto simp: loop_body_def count_read_def mark_error_def\<close>)

lemma loop_body_aligned:
  assumes "loop_body g minscore s raw_line = (out, Inr s')" and "lists_aligned s"
  shows "lists_aligned s'"
proof -
  from assms(2) have shapes: "shape (all_scores s) = shape (all_kmerel s)"
    "shape (all_kmerel s) = shape (all_length s)"
    by (simp_all add: lists_aligned_def)
  from loop_body_lists [OF assms(1)] show ?thesis
  proof (elim disjE exE conjE)
    assume "all_scores s' = all_scores s" "all_kmerel s' = all_kmerel s"
      "all_length s' = all_length s"
    with shapes show ?thesis by (simp add: lists_aligned_def)
  next
    fix t len shel score
    assume "all_scores s' = dict_append t shel (all_scores s)"
      "all_kmerel s' = dict_append t score (all_kmerel s)"
      "all_length s' = dict_append t len (all_length s)"
    with shape_dict_append [OF shapes(1), of t shel score]
      shape_dict_append [OF shapes(2), of t score len]
    show ?thesis by (simp add: lists_aligned_def)
  qed
qed

lemma for_loop_aligned:
  "for_loop g minscore s rows = (out, Inr s') \<Longrightarrow> lists_aligned s \<Longrightarrow> lists_aligned s'"
proof (induction rows arbitrary: s out)
  case Nil
  then show ?case by simp
next
  case (Cons raw_line rows)
  from Cons.prems(1) obtain o1 m o2 where
    body: "loop_body g minscore s raw_line = (o1, Inr m)"
    and rest: "for_loop g minscore m rows = (o2, Inr s')"
    by (auto simp: then_do_def split: prod.splits sum.splits)
  from loop_body_aligned [OF body Cons.prems(2)] have "lists_aligned m" .
  with rest show ?case by (rule Cons.IH)
qed

lemma map_of_shape: "map_of (shape d) t = map_option length (map_of d t)"
  by (induction d) (auto simp: shape_def)

lemma length_entries: "length (entries d t) = (case map_of (shape d) t of None \<Rightarrow> 0 | Some n \<Rightarrow> n)"
  by (simp add: entries_def map_of_shape split: option.splits)

lemma keys_shape: "map fst (shape d) = map fst d"
  by (induction d) (auto simp: shape_def)

lemma lists_aligned_initial: "lists_aligned initial_state"
  by (simp add: lists_aligned_def initial_state_def shape_def)

text \<open>
  C7. After any number \<open>n\<close> of lines of the scan, the three dictionaries hold the same
  taxa in the same order, and for every taxon the score list, the relative-score list and
  the length list have the same length. One pass through the loop body either leaves the
  three dictionaries as they are or appends one entry to the lists of one taxon in all
  three.
\<close>

theorem per_taxon_lists_aligned:
  "(for_loop g minscore initial_state (take n rows) = (out, Inr s) \<longrightarrow>
      lists_aligned s \<and>
      map fst (all_scores s) = map fst (all_kmerel s) \<and>
      map fst (all_kmerel s) = map fst (all_length s) \<and>
      (\<forall>t. length (entries (all_scores s) t) = length (entries (all_kmerel s) t) \<and>
           length (entries (all_kmerel s) t) = length (entries (all_length s) t))) \<and>
   (loop_body g minscore s1 raw_line = (out', Inr s2) \<longrightarrow>
      (all_scores s2 = all_scores s1 \<and> all_kmerel s2 = all_kmerel s1 \<and>
       all_length s2 = all_length s1) \<or>
      (\<exists>t len shel score.
         all_scores s2 = dict_append t shel (all_scores s1) \<and>
         all_kmerel s2 = dict_append t score (all_kmerel s1) \<and>
         all_length s2 = dict_append t len (all_length s1)))"
proof (intro conjI impI)
  assume scan: "for_loop g minscore initial_state (take n rows) = (out, Inr s)"
  from for_loop_aligned [OF scan lists_aligned_initial]
  show aligned: "lists_aligned s" .
  then have shapes: "shape (all_scores s) = shape (all_kmerel s)"
    "shape (all_kmerel s) = shape (all_length s)"
    by (simp_all add: lists_aligned_def)
  from shapes(1) show "map fst (all_scores s) = map fst (all_kmerel s)"
    by (metis keys_shape)
  from shapes(2) show "map fst (all_kmerel s) = map fst (all_length s)"
    by (metis keys_shape)
  from shapes show "\<forall>t. length (entries (all_scores s) t) = length (entries (all_kmerel s) t) \<and>
           length (entries (all_kmerel s) t) = length (entries (all_length s) t)"
    by (simp add: length_entries)
next
  assume "loop_body g minscore s1 raw_line = (out', Inr s2)"
  then show "(all_scores s2 = all_scores s1 \<and> all_kmerel s2 = all_kmerel s1 \<and>
       all_length s2 = all_length s1) \<or>
      (\<exists>t len shel score.
         all_scores s2 = dict_append t shel (all_scores s1) \<and>
         all_kmerel s2 = dict_append t score (all_kmerel s1) \<and>
         all_length s2 = dict_append t len (all_length s1))"
    by (rule loop_body_lists)
qed

theorem per_taxon_lists_aligned_witness:
  "for_loop (example_globals SHEL) None initial_state
     (take 2 [join [TAB] [''C'', ''r1'', ''9606'', ''100'', ''9606:10''] @ [NL],
              join [TAB] [''C'', ''r2'', ''562'', ''80'', ''562:30 9606:10''] @ [NL],
              join [TAB] [''C'', ''r3'', ''9606'', ''90'', ''9606:20''] @ [NL]])
   = ([], Inr \<lparr>all_scores = [(''9606'', [45]), (''562'', [65])],
               all_kmerel = [(''9606'', [100]), (''562'', [75])],
               all_length = [(''9606'', [100]), (''562'', [80])],
               num_read = 2, nt_read = 180, num_uncl = 0, error_read = - 1\<rparr>) \<and>
   lists_aligned \<lparr>all_scores = [(''9606'', [45]), (''562'', [65])],
               all_kmerel = [(''9606'', [100]), (''562'', [75])],
               all_length = [(''9606'', [100]), (''562'', [80])],
               num_read = 2, nt_read = 180, num_uncl = 0, error_read = - 1\<rparr> \<and>
   loop_body (example_globals SHEL) None
     \<lparr>all_scores = [(''9606'', [45]), (''562'', [65])],
      all_kmerel = [(''9606'', [100]), (''562'', [75])],
      all_length = [(''9606'', [100]), (''562'', [80])],
      num_read = 2, nt_read = 180, num_uncl = 0, error_read = - 1\<rparr>
     (join [TAB] [''C'', ''r3'', ''9606'', ''90'', ''9606:20''] @ [NL])
   = ([], Inr \<lparr>all_scores = [(''9606'', [45, 55]), (''562'', [65])],
               all_kmerel = [(''9606'', [100, 100]), (''562'', [75])],
               all_length = [(''9606'', [100, 90]), (''562'', [80])],
               num_read = 3, nt_read = 270, num_uncl = 0, error_read = - 1\<rparr>)"
proof -
  let ?g = "example_globals SHEL"
  let ?l1 = "join [TAB] [''C'', ''r1'', ''9606'', ''100'', ''9606:10''] @ [NL]"
  let ?l2 = "join [TAB] [''C'', ''r2'', ''562'', ''80'', ''562:30 9606:10''] @ [NL]"
  let ?l3 = "join [TAB] [''C'', ''r3'', ''9606'', ''90'', ''9606:20''] @ [NL]"
  let ?s = "\<lparr>all_scores = [(''9606'', [45]), (''562'', [65])],
             all_kmerel = [(''9606'', [100]), (''562'', [75])],
             all_length = [(''9606'', [100]), (''562'', [80])],
             num_read = 2, nt_read = 180, num_uncl = 0, error_read = - 1\<rparr>"
  let ?s' = "\<lparr>all_scores = [(''9606'', [45, 55]), (''562'', [65])],
              all_kmerel = [(''9606'', [100, 100]), (''562'', [75])],
              all_length = [(''9606'', [100, 90]), (''562'', [80])],
              num_read = 3, nt_read = 270, num_uncl = 0, error_read = - 1\<rparr>"
  have scan: "for_loop ?g None initial_state (take 2 [?l1, ?l2, ?l3]) = ([], Inr ?s)"
    by (simp add: evaluation)
  have body: "loop_body ?g None ?s ?l3 = ([], Inr ?s')"
    by (simp add: evaluation)
  from per_taxon_lists_aligned
    [where g = ?g and minscore = None and n = 2 and rows = "[?l1, ?l2, ?l3]" and out = "[]"
       and s = ?s and ?s1.0 = ?s and raw_line = ?l3 and out' = "[]" and ?s2.0 = ?s']
    scan body
  show ?thesis
    by simp
qed

section \<open>The warning for a truncated file\<close>

lemma loop_body_error_mark:
  assumes "loop_body g minscore s raw_line = (out, Inr s')"
    and "error_read s \<le> num_read s + 1"
  shows "error_read s' \<le> num_read s' + 1 \<and>
         (error_read s' = num_read s' + 1 \<longleftrightarrow> errored g raw_line)"
  using assms
  by (cases "parse_record g raw_line")
     (auto simp: loop_body_def errored_def count_read_def mark_error_def retain_def
           split: if_splits)

lemma for_loop_error_mark:
  "for_loop g minscore s rows = (out, Inr s') \<Longrightarrow> error_read s \<le> num_read s + 1 \<Longrightarrow>
   rows \<noteq> [] \<Longrightarrow>
   error_read s' \<le> num_read s' + 1 \<and>
   (error_read s' = num_read s' + 1 \<longleftrightarrow> errored g (last rows))"
proof (induction rows arbitrary: s out)
  case Nil
  then show ?case by simp
next
  case (Cons raw_line rows)
  from Cons.prems(1) obtain o1 m o2 where
    body: "loop_body g minscore s raw_line = (o1, Inr m)"
    and rest: "for_loop g minscore m rows = (o2, Inr s')"
    by (auto simp: then_do_def split: prod.splits sum.splits)
  note step = loop_body_error_mark [OF body Cons.prems(2)]
  show ?case
  proof (cases "rows = []")
    case True
    with rest step show ?thesis by simp
  next
    case False
    from Cons.IH [OF rest _ False] step False show ?thesis by simp
  qed
qed

lemma loop_body_messages:
  "Seems_truncated \<notin> set (fst (loop_body g minscore s raw_line))"
  by (cases "parse_record g raw_line") (auto simp: loop_body_def)

lemma fst_then_do:
  "fst (then_do m f) = fst m @ (case snd m of Inl e \<Rightarrow> [] | Inr x \<Rightarrow> fst (f x))"
  by (auto simp: then_do_def split: prod.splits sum.splits)

lemma for_loop_messages:
  "Seems_truncated \<notin> set (fst (for_loop g minscore s rows))"
proof (induction rows arbitrary: s)
  case Nil
  then show ?case by simp
next
  case (Cons raw_line rows)
  then show ?case
    by (auto simp: fst_then_do loop_body_messages split: sum.splits)
qed

lemma select_scores_messages:
  "Seems_truncated \<notin> set (fst (select_scores g s))"
  by (cases "scoring g") (simp_all add: select_scores_def)

lemma after_scan_messages:
  "Seems_truncated \<in> set (fst (after_scan g s)) \<longleftrightarrow> error_read s = num_read s + 1"
  using select_scores_messages [of g s]
  by (auto simp: after_scan_def fst_then_do Let_def split: sum.splits)

text \<open>
  C9. The function prints the warning for a truncated file exactly when the header has
  five fields, the scan of the data lines comes to its end without an exception, there is
  a data line, and the last data line errored, that is, ended in one of the two handlers
  of \<^verbatim>\<open>ValueError\<close>. So an error on an earlier line does not print the warning when
  the last line is counted without error.
\<close>

theorem truncated_warning:
  "Seems_truncated \<in> set (fst (read_generic_output g (Some content) format minscore)) \<longleftrightarrow>
     count_list (takeWhile (\<lambda>c. c \<noteq> NL) content) TAB = 4 \<and>
     returns (for_loop g minscore initial_state (tl (readlines content))) \<and>
     tl (readlines content) \<noteq> [] \<and>
     errored g (last (tl (readlines content)))"
proof (cases "count_list (takeWhile (\<lambda>c. c \<noteq> NL) content) TAB = 4")
  case False
  then show ?thesis
    by (simp add: read_generic_output_def Let_def header_fields)
next
  case True
  obtain out r where scan: "for_loop g minscore initial_state (tl (readlines content)) = (out, r)"
    by (cases "for_loop g minscore initial_state (tl (readlines content))")
  from for_loop_messages [of g minscore initial_state "tl (readlines content)"] scan
  have out: "Seems_truncated \<notin> set out" by simp
  show ?thesis
  proof (cases r)
    case (Inl e)
    with True scan out show ?thesis
      by (simp add: read_generic_output_def Let_def header_fields fst_then_do returns_def)
  next
    case (Inr s)
    have init: "error_read initial_state \<le> num_read initial_state + 1"
      by (simp add: initial_state_def)
    have "error_read s = num_read s + 1 \<longleftrightarrow>
            tl (readlines content) \<noteq> [] \<and> errored g (last (tl (readlines content)))"
    proof (cases "tl (readlines content) = []")
      case True
      with scan Inr have "s = initial_state" by simp
      with True show ?thesis by (simp add: initial_state_def)
    next
      case False
      with for_loop_error_mark [OF scan [unfolded Inr] init False] show ?thesis by simp
    qed
    with True scan Inr out show ?thesis
      by (simp add: read_generic_output_def Let_def header_fields fst_then_do returns_def
            after_scan_messages)
  qed
qed

theorem truncated_warning_witness:
  "Seems_truncated \<in> set (fst (read_generic_output (example_globals SHEL)
     (Some (example_header @
            join [TAB] [''C'', ''r1'', ''9606'', ''100'', ''9606:10''] @ [NL] @
            join [TAB] [''C'', ''r2'', ''9606'', ''100''])) example_format None)) \<and>
   fst (read_generic_output (example_globals SHEL)
     (Some (example_header @
            join [TAB] [''C'', ''r1'', ''9606'', ''100'', ''9606:10''] @ [NL] @
            join [TAB] [''C'', ''r2'', ''9606'', ''100''])) example_format None)
   = [Error_parsing_line (join [TAB] [''C'', ''r2'', ''9606'', ''100'']), Seems_truncated] \<and>
   fst (read_generic_output (example_globals SHEL)
     (Some (example_header @
            join [TAB] [''C'', ''r2'', ''9606'', ''100''] @ [NL] @
            join [TAB] [''C'', ''r1'', ''9606'', ''100'', ''9606:10''] @ [NL])) example_format None)
   = [Error_parsing_line (join [TAB] [''C'', ''r2'', ''9606'', ''100''])]"
proof -
  let ?g = "example_globals SHEL"
  let ?cut = "example_header @
            join [TAB] [''C'', ''r1'', ''9606'', ''100'', ''9606:10''] @ [NL] @
            join [TAB] [''C'', ''r2'', ''9606'', ''100'']"
  let ?whole = "example_header @
            join [TAB] [''C'', ''r2'', ''9606'', ''100''] @ [NL] @
            join [TAB] [''C'', ''r1'', ''9606'', ''100'', ''9606:10''] @ [NL]"
  have header: "count_list (takeWhile (\<lambda>c. c \<noteq> NL) ?cut) TAB = 4"
    by (simp add: TAB_def NL_def)
  have scan: "returns (for_loop ?g None initial_state (tl (readlines ?cut)))"
    by (simp add: evaluation returns_def)
  have rows: "tl (readlines ?cut) \<noteq> []"
    by (simp add: TAB_def NL_def)
  have last: "errored ?g (last (tl (readlines ?cut)))"
    by (simp add: evaluation errored_def)
  from truncated_warning [of ?g ?cut example_format None] header scan rows last
  have "Seems_truncated \<in> set (fst (read_generic_output ?g (Some ?cut) example_format None))"
    by blast
  moreover have "fst (read_generic_output ?g (Some ?cut) example_format None)
    = [Error_parsing_line (join [TAB] [''C'', ''r2'', ''9606'', ''100'']), Seems_truncated]"
    by (simp add: evaluation)
  moreover have "fst (read_generic_output ?g (Some ?whole) example_format None)
    = [Error_parsing_line (join [TAB] [''C'', ''r2'', ''9606'', ''100''])]"
    by (simp add: evaluation)
  ultimately show ?thesis
    by blast
qed

section \<open>The normalized score\<close>

lemma entries_dict_append:
  "entries (dict_append k v d) t = (if t = k then entries d k @ [v] else entries d t)"
  by (simp add: entries_def map_of_dict_append)

lemma loop_body_entries:
  assumes "loop_body g minscore s raw_line = (out, Inr s')"
  shows "entries (all_scores s') t =
           entries (all_scores s) t @ map record_shel (of_taxon t (retained_records g minscore [raw_line])) \<and>
         entries (all_length s') t =
           entries (all_length s) t @ map record_length (of_taxon t (retained_records g minscore [raw_line])) \<and>
         entries (all_kmerel s') t =
           entries (all_kmerel s) t @ map record_score (of_taxon t (retained_records g minscore [raw_line]))"
  using assms
  by (cases "parse_record g raw_line")
     (auto simp: loop_body_def retained_records_def of_taxon_def count_read_def mark_error_def
                 retain_def entries_dict_append record_shel_def record_length_def record_score_def
           split: if_splits)

lemma retained_records_Cons:
  "retained_records g minscore (raw_line # rows) =
     retained_records g minscore [raw_line] @ retained_records g minscore rows"
  by (simp add: retained_records_def)

lemma for_loop_entries:
  "for_loop g minscore s rows = (out, Inr s') \<Longrightarrow>
   entries (all_scores s') t =
     entries (all_scores s) t @ map record_shel (of_taxon t (retained_records g minscore rows)) \<and>
   entries (all_length s') t =
     entries (all_length s) t @ map record_length (of_taxon t (retained_records g minscore rows)) \<and>
   entries (all_kmerel s') t =
     entries (all_kmerel s) t @ map record_score (of_taxon t (retained_records g minscore rows))"
proof (induction rows arbitrary: s out)
  case Nil
  then show ?case by (simp add: retained_records_def of_taxon_def)
next
  case (Cons raw_line rows)
  from Cons.prems(1) obtain o1 m o2 where
    body: "loop_body g minscore s raw_line = (o1, Inr m)"
    and rest: "for_loop g minscore m rows = (o2, Inr s')"
    by (auto simp: then_do_def split: prod.splits sum.splits)
  from loop_body_entries [OF body, of t] Cons.IH [OF rest]
  show ?case
    by (simp add: retained_records_Cons [of g minscore raw_line rows] of_taxon_def)
qed

lemma comprehension_lookup:
  "comprehension f d = Inr d' \<Longrightarrow> map_of d t = Some v \<Longrightarrow>
   \<exists>w. f t v = Inr w \<and> map_of d' t = Some w"
  by (induction f d arbitrary: d' rule: comprehension.induct)
     (auto split: sum.splits if_splits)

lemma mean_average: "mean xs = Inr m \<Longrightarrow> m = average xs"
  by (auto simp: mean_def average_def split: if_splits)

lemma entries_Some: "entries d t \<noteq> [] \<Longrightarrow> map_of d t = Some (entries d t)"
  by (auto simp: entries_def split: option.splits)

lemma select_scores_norma:
  assumes "scoring g = NORMA"
    and "select_scores g s = (out, Inr out_scores)"
    and "entries (all_scores s) t \<noteq> []"
    and "entries (all_length s) t \<noteq> []"
  shows "map_of out_scores t =
           Some (average (map real_of_int (entries (all_scores s) t))
                 / average (map real_of_int (entries (all_length s) t)) * 100)"
proof -
  from assms(1,2) obtain scores lengths where
    scores: "comprehension (\<lambda>t xs. mean (map real_of_int xs)) (all_scores s) = Inr scores"
    and lengths: "comprehension (\<lambda>t xs. mean (map real_of_int xs)) (all_length s) = Inr lengths"
    and final: "comprehension (norma_score lengths) scores = Inr out_scores"
    by (auto simp: select_scores_def split: sum.splits)
  from comprehension_lookup [OF scores entries_Some [OF assms(3)]] obtain m where
    m: "mean (map real_of_int (entries (all_scores s) t)) = Inr m" "map_of scores t = Some m"
    by blast
  from comprehension_lookup [OF lengths entries_Some [OF assms(4)]] obtain l where
    l: "mean (map real_of_int (entries (all_length s) t)) = Inr l" "map_of lengths t = Some l"
    by blast
  from comprehension_lookup [OF final m(2)] obtain w where
    w: "norma_score lengths t m = Inr w" "map_of out_scores t = Some w"
    by blast
  from w(1) l(2) have "w = m / l * 100"
    by (auto simp: norma_score_def split: if_splits)
  with w(2) mean_average [OF m(1)] mean_average [OF l(1)] show ?thesis
    by simp
qed

lemma read_generic_output_steps:
  assumes "count_list (takeWhile (\<lambda>c. c \<noteq> NL) content) TAB = 4"
    and "for_loop g minscore initial_state (tl (readlines content)) = (o1, Inr s)"
    and "after_scan g s = (o2, r)"
  shows "read_generic_output g (Some content) format minscore = (o1 @ o2, r)"
  using assms by (simp add: read_generic_output_def Let_def header_fields then_do_def)

text \<open>
  C8. Under the policy NORMA, whenever the function returns, the score of every taxon with
  at least one retained record is the mean shel of the retained records of that taxon over
  the mean of their lengths, times 100. Floats are exact reals here, so the equality is
  exact; the function returns no score at all when a mean length is zero, the division
  raising \<^verbatim>\<open>ZeroDivisionError\<close>.
\<close>

theorem normalized_score:
  assumes "scoring g = NORMA"
    and "read_generic_output g (Some content) format minscore = (out, Inr (stat, counts, out_scores))"
    and "records = of_taxon t (retained_records g minscore (tl (readlines content)))"
    and "records \<noteq> []"
  shows "map_of out_scores t =
           Some (average (map (\<lambda>r. real_of_int (record_shel r)) records)
                 / average (map (\<lambda>r. real_of_int (record_length r)) records) * 100)"
proof -
  from assms(2) obtain o1 s o2 where
    scan: "for_loop g minscore initial_state (tl (readlines content)) = (o1, Inr s)"
    and after: "after_scan g s = (o2, Inr (stat, counts, out_scores))"
    by (auto simp: read_generic_output_def Let_def then_do_def split: if_splits prod.splits sum.splits)
  from after obtain o3 where select: "select_scores g s = (o3, Inr out_scores)"
    by (auto simp: after_scan_def Let_def then_do_def split: if_splits prod.splits sum.splits)
  from for_loop_entries [OF scan, of t] assms(3)
  have shels: "entries (all_scores s) t = map record_shel records"
    and lens: "entries (all_length s) t = map record_length records"
    by (simp_all add: initial_state_def entries_def)
  from shels lens assms(4) have "entries (all_scores s) t \<noteq> []" "entries (all_length s) t \<noteq> []"
    by simp_all
  from select_scores_norma [OF assms(1) select this] shels lens show ?thesis
    by (simp add: comp_def)
qed

theorem normalized_score_witness:
  "read_generic_output (example_globals NORMA)
     (Some (example_header @
            join [TAB] [''C'', ''r1'', ''9606'', ''100'', ''9606:45''] @ [NL] @
            join [TAB] [''C'', ''r2'', ''9606'', ''50|100'', ''9606:85 |:| 562:15''] @ [NL]))
     example_format None
   = ([], Inr (\<lparr>seq_read = 2, stat_nt_read = 250, seq_unclas = 0, seq_filt = 2,
                 stat_sco = \<lparr>mini = 80, maxi = 120, avrg = 100\<rparr>,
                 stat_sco2 = \<lparr>mini = 85, maxi = 100, avrg = 185 / 2\<rparr>,
                 stat_len = \<lparr>mini = 100, maxi = 150, avrg = 125\<rparr>,
                 num_taxa = 1\<rparr>,
               [(''9606'', 2)], [(''9606'', 80)])) \<and>
   of_taxon ''9606'' (retained_records (example_globals NORMA) None
     (tl (readlines (example_header @
            join [TAB] [''C'', ''r1'', ''9606'', ''100'', ''9606:45''] @ [NL] @
            join [TAB] [''C'', ''r2'', ''9606'', ''50|100'', ''9606:85 |:| 562:15''] @ [NL]))))
   = [(''9606'', 100, 80, 100), (''9606'', 150, 120, 85)] \<and>
   map_of [(''9606'', 80 :: real)] ''9606'' = Some (100 / 125 * 100)"
proof -
  let ?g = "example_globals NORMA"
  let ?content = "example_header @
            join [TAB] [''C'', ''r1'', ''9606'', ''100'', ''9606:45''] @ [NL] @
            join [TAB] [''C'', ''r2'', ''9606'', ''50|100'', ''9606:85 |:| 562:15''] @ [NL]"
  let ?s = "\<lparr>all_scores = [(''9606'', [80, 120])], all_kmerel = [(''9606'', [100, 85])],
             all_length = [(''9606'', [100, 150])],
             num_read = 2, nt_read = 250, num_uncl = 0, error_read = - 1\<rparr>"
  let ?stat = "\<lparr>seq_read = 2, stat_nt_read = 250, seq_unclas = 0, seq_filt = 2,
                 stat_sco = \<lparr>mini = 80, maxi = 120, avrg = 100\<rparr>,
                 stat_sco2 = \<lparr>mini = 85, maxi = 100, avrg = 185 / 2\<rparr>,
                 stat_len = \<lparr>mini = 100, maxi = 150, avrg = 125\<rparr>,
                 num_taxa = 1\<rparr>"
  let ?records = "[(''9606'', 100, 80, 100), (''9606'', 150, 120, 85)] :: (string \<times> int \<times> int \<times> real) list"
  have policy: "scoring ?g = NORMA"
    by simp
  have header: "count_list (takeWhile (\<lambda>c. c \<noteq> NL) ?content) TAB = 4"
    by (simp add: TAB_def NL_def)
  have scan: "for_loop ?g None initial_state (tl (readlines ?content)) = ([], Inr ?s)"
    by (simp add: evaluation)
  have stats: "SampleStats ?s = Inr ?stat"
    by (simp add: SampleStats_def metric_stats_def filt_seqs_def)
  have select: "select_scores ?g ?s = ([], Inr [(''9606'', 80)])"
    by (simp add: select_scores_def mean_def norma_score_def)
  have after: "after_scan ?g ?s = ([], Inr (?stat, [(''9606'', 2)], [(''9606'', 80)]))"
    by (simp add: after_scan_def stats select then_do_def filt_seqs_def)
  from read_generic_output_steps [OF header scan after]
  have run: "read_generic_output ?g (Some ?content) example_format None
               = ([], Inr (?stat, [(''9606'', 2)], [(''9606'', 80)]))"
    by simp
  have records: "of_taxon ''9606'' (retained_records ?g None (tl (readlines ?content))) = ?records"
    by (simp add: evaluation retained_records_def of_taxon_def)
  have some: "?records \<noteq> []"
    by simp
  from normalized_score [OF policy run records [symmetric] some]
  have score: "map_of [(''9606'', 80 :: real)] ''9606'' = Some (100 / 125 * 100)"
    by (simp add: average_def record_shel_def record_length_def)
  show ?thesis
    using run records score by blast
qed

end
